theory Spec2Isabelle
  imports Main "HOL-Library.AList"
begin

section \<open>TextualMOC: the popup demo and the find-the-target game\<close>

text \<open>
  The repository holds two browser scripts on top of the Aladin Lite sky viewer.
  The first (\<^verbatim>\<open>AladinGame/aladin_game_d1/js/script.js\<close>, suffix \<open>_d1\<close> below) shows a
  popup while the pointer is inside one MOC region. The second (the game script) loads a
  list of regions, one of them the target, and runs a 30 second session.

  Both scripts keep their state in module-level variables and in DOM elements. The model
  passes that state explicitly: every function takes the state and returns the new one.
\<close>

subsection \<open>Region records as JavaScript objects\<close>

text \<open>
  A region record comes from \<^verbatim>\<open>JSON.parse\<close>: a plain object whose own enumerable
  properties are its fields. It is modelled as an association list in enumeration order;
  \<open>keys_of\<close> is what \<^verbatim>\<open>for (const key in obj)\<close> visits and \<open>map_of obj key\<close> is
  \<^verbatim>\<open>obj[key]\<close>. The values stay abstract (\<open>'v\<close>).
\<close>

type_synonym 'v js_object = "(string \<times> 'v) list"

definition keys_of :: "'v js_object \<Rightarrow> string list" where
  "keys_of obj = map fst obj"

text \<open>
  The assignment \<^verbatim>\<open>mocData[key] = v\<close> on the object that both splitters build from
  \<^verbatim>\<open>{}\<close>. For every key but one it overwrites the own property of that name in place
  or appends a new one. The key \<^verbatim>\<open>__proto__\<close> is the exception: \<open>mocData\<close> has no own
  property of that name, so the assignment reaches the accessor that
  \<^verbatim>\<open>Object.prototype\<close> defines; its setter replaces the prototype of \<open>mocData\<close> when
  \<open>v\<close> is an object or \<^verbatim>\<open>null\<close> and does nothing otherwise. In neither case does
  \<open>mocData\<close> get an own property. (An input record can have an own field of that name:
  \<^verbatim>\<open>JSON.parse\<close> defines it as a data property, and \<^verbatim>\<open>for-in\<close> visits it.) The
  list holds the own properties only; the prototype is not recorded.
\<close>

definition assign_property :: "string \<Rightarrow> 'v \<Rightarrow> 'v js_object \<Rightarrow> 'v js_object" where
  "assign_property key v mocData =
     (if key = ''__proto__'' then mocData else AList.update key v mocData)"

text \<open>
  The game script:
  \<^verbatim>\<open>
  function processMOCWithText(mocWithText) {
      const mocData = {};
      for (const key in mocWithText) {
          if (key !== 'text' && key !== 'isTarget') {
              mocData[key] = mocWithText[key];
          }
      }
      return mocData;
  }
  \<close>
  The loop runs over the keys; a key that \<^verbatim>\<open>for-in\<close> visits is a property of the
  object, so the \<open>None\<close> branch of the property read is never taken from
  \<open>processMOCWithText\<close>.
\<close>

fun processMOCWithText_loop ::
  "string list \<Rightarrow> 'v js_object \<Rightarrow> 'v js_object \<Rightarrow> 'v js_object" where
  "processMOCWithText_loop [] mocWithText mocData = mocData"
| "processMOCWithText_loop (key # keys) mocWithText mocData =
     (if key \<noteq> ''text'' \<and> key \<noteq> ''isTarget'' then
        (case map_of mocWithText key of
           Some v \<Rightarrow> processMOCWithText_loop keys mocWithText (assign_property key v mocData)
         | None \<Rightarrow> processMOCWithText_loop keys mocWithText mocData)
      else processMOCWithText_loop keys mocWithText mocData)"

definition processMOCWithText :: "'v js_object \<Rightarrow> 'v js_object" where
  "processMOCWithText mocWithText =
     processMOCWithText_loop (keys_of mocWithText) mocWithText []"

subsection \<open>The popup demo: state and region-text splitter\<close>

text \<open>
  Module-level variables of the first script (\<open>cursorInMOC\<close>, \<open>soundsEnabled\<close>,
  \<open>mocText\<close>), the DOM properties it writes, and the calls it makes on the outside
  world (\<^verbatim>\<open>console.log\<close>, \<^verbatim>\<open>play()\<close>), oldest first.
\<close>

datatype effect_d1 = ConsoleLog string | PlayEnterSound | PlayExitSound

record 'v state_d1 =
  cursorInMOC_d1 :: bool
  soundsEnabled_d1 :: bool
  mocText_d1 :: 'v
  popup_display_d1 :: string
  popup_textContent_d1 :: 'v
  soundToggle_textContent_d1 :: string
  effects_d1 :: "effect_d1 list"

text \<open>
  \<^verbatim>\<open>
  function processMOCWithText(mocWithText) {
      const mocData = {};
      for (const key in mocWithText) {
          if (key === 'text') {
              mocText = mocWithText[key]; // Store the text separately
          } else {
              mocData[key] = mocWithText[key]; // Store the other data in mocData
          }
      }
      return mocData;
  }
  \<close>
  This variant assigns the module-level \<open>mocText\<close>, so it takes and returns the state.
\<close>

fun processMOCWithText_d1_loop ::
  "string list \<Rightarrow> 'v js_object \<Rightarrow> 'v js_object \<times> 'v state_d1 \<Rightarrow> 'v js_object \<times> 'v state_d1"
  where
  "processMOCWithText_d1_loop [] mocWithText (mocData, s) = (mocData, s)"
| "processMOCWithText_d1_loop (key # keys) mocWithText (mocData, s) =
     (case map_of mocWithText key of
        None \<Rightarrow> processMOCWithText_d1_loop keys mocWithText (mocData, s)
      | Some v \<Rightarrow>
          if key = ''text'' then
            processMOCWithText_d1_loop keys mocWithText (mocData, s\<lparr>mocText_d1 := v\<rparr>)
          else
            processMOCWithText_d1_loop keys mocWithText (assign_property key v mocData, s))"

definition processMOCWithText_d1 ::
  "'v js_object \<Rightarrow> 'v state_d1 \<Rightarrow> 'v js_object \<times> 'v state_d1" where
  "processMOCWithText_d1 mocWithText s =
     processMOCWithText_d1_loop (keys_of mocWithText) mocWithText ([], s)"

subsection \<open>The popup demo: pointer handler\<close>

text \<open>
  A position as the viewer delivers it to a \<^verbatim>\<open>mouseMove\<close> listener: an object with
  \<open>ra\<close> and \<open>dec\<close>, or \<^verbatim>\<open>null\<close> (\<open>None\<close>). The coordinates are only handed on
  to the library, so their type stays abstract (\<open>'c\<close>). A MOC object of the library is
  used through \<^verbatim>\<open>moc.contains(ra, dec)\<close> alone and is modelled as that predicate.
\<close>

record 'c position =
  ra :: 'c
  dec :: 'c

type_synonym 'c moc_object = "'c \<Rightarrow> 'c \<Rightarrow> bool"

text \<open>
  \<^verbatim>\<open>
  aladin.on('mouseMove', function (pos) {
      if (!pos) return;
      let isInMOC = moc.contains(pos.ra, pos.dec);
      if (isInMOC && !cursorInMOC) {
          console.log('Cursor entered the MOC region');
          cursorInMOC = true;
          popup.style.display = 'block';
          popup.textContent = mocText;
          if (soundsEnabled) { enterSound.play()... }
      } else if (!isInMOC && cursorInMOC) {
          console.log('Cursor left the MOC region');
          cursorInMOC = false;
          popup.style.display = 'none';
          if (soundsEnabled) { exitSound.play()... }
      }
  });
  \<close>
\<close>

definition mouseMove_d1 ::
  "'c moc_object \<Rightarrow> 'c position option \<Rightarrow> 'v state_d1 \<Rightarrow> 'v state_d1" where
  "mouseMove_d1 moc pos s =
     (case pos of
        None \<Rightarrow> s
      | Some p \<Rightarrow>
          let isInMOC = moc (ra p) (dec p) in
          if isInMOC \<and> \<not> cursorInMOC_d1 s then
            let s1 = s\<lparr>effects_d1 := effects_d1 s @ [ConsoleLog ''Cursor entered the MOC region'']\<rparr>;
                s2 = s1\<lparr>cursorInMOC_d1 := True\<rparr>;
                s3 = s2\<lparr>popup_display_d1 := ''block''\<rparr>;
                s4 = s3\<lparr>popup_textContent_d1 := mocText_d1 s3\<rparr>
            in if soundsEnabled_d1 s4
               then s4\<lparr>effects_d1 := effects_d1 s4 @ [PlayEnterSound]\<rparr> else s4
          else if \<not> isInMOC \<and> cursorInMOC_d1 s then
            let s1 = s\<lparr>effects_d1 := effects_d1 s @ [ConsoleLog ''Cursor left the MOC region'']\<rparr>;
                s2 = s1\<lparr>cursorInMOC_d1 := False\<rparr>;
                s3 = s2\<lparr>popup_display_d1 := ''none''\<rparr>
            in if soundsEnabled_d1 s3
               then s3\<lparr>effects_d1 := effects_d1 s3 @ [PlayExitSound]\<rparr> else s3
          else s)"

text \<open>
  \<^verbatim>\<open>
  function toggleSounds() {
      soundsEnabled = !soundsEnabled;
      soundToggle.textContent = soundsEnabled ? "Disable Sounds" : "Enable Sounds";
  }
  \<close>
\<close>

definition toggleSounds :: "'v state_d1 \<Rightarrow> 'v state_d1" where
  "toggleSounds s =
     (let s1 = s\<lparr>soundsEnabled_d1 := \<not> soundsEnabled_d1 s\<rparr>
      in s1\<lparr>soundToggle_textContent_d1 :=
              (if soundsEnabled_d1 s1 then ''Disable Sounds'' else ''Enable Sounds'')\<rparr>)"

subsection \<open>The game: state\<close>

text \<open>
  JavaScript renders the numbers \<open>score\<close> and \<open>timeLeft\<close> in template literals and in
  \<^verbatim>\<open>textContent = timeLeft\<close>. Both hold integers; \<open>string_of_int\<close> is their decimal
  rendering.
\<close>

fun string_of_nat :: "nat \<Rightarrow> string" where
  "string_of_nat n =
     (if n < 10 then [''0123456789'' ! n]
      else string_of_nat (n div 10) @ [''0123456789'' ! (n mod 10)])"

declare string_of_nat.simps [simp del]

definition string_of_int :: "int \<Rightarrow> string" where
  "string_of_int i = (if i < 0 then ''-'' @ string_of_nat (nat (- i)) else string_of_nat (nat i))"

text \<open>
  The module-level variables of the game script, the DOM properties it writes, and the two
  parts of the browser it drives: the repeating intervals that are scheduled (\<open>intervals\<close>,
  with \<open>nextIntervalId\<close> the id the next \<^verbatim>\<open>setInterval\<close> returns) and the audio cues
  played so far (\<open>played\<close>, oldest first). \<open>timerInterval\<close> is \<open>None\<close> while the
  variable is still \<^verbatim>\<open>undefined\<close>.
\<close>

datatype sound = SuccessSound | ErrorSound

record game_state =
  cursorInMOC :: bool
  gameStarted :: bool
  score :: int
  timeLeft :: int
  timerInterval :: "nat option"
  popup_textContent :: string
  popup_display :: string
  scoreDisplay_textContent :: string
  timerDisplay_color :: string
  timeElement_textContent :: string
  countdownDisplay_textContent :: string
  countdownDisplay_display :: string
  gameStatusDisplay_textContent :: string
  startGameButton_disabled :: bool
  intervals :: "nat list"
  nextIntervalId :: nat
  played :: "sound list"

text \<open>\<^verbatim>\<open>clearInterval(handle)\<close>: cancels that interval; no effect for \<^verbatim>\<open>undefined\<close> or an id
  that is not scheduled.\<close>

definition clearInterval :: "nat option \<Rightarrow> game_state \<Rightarrow> game_state" where
  "clearInterval handle s =
     (case handle of None \<Rightarrow> s | Some i \<Rightarrow> s\<lparr>intervals := removeAll i (intervals s)\<rparr>)"

text \<open>\<^verbatim>\<open>timerInterval = setInterval(callback, 1000)\<close>: schedules a new interval under a
  fresh id and stores the id. The callback is always \<open>timer_callback\<close> below.\<close>

definition setInterval :: "game_state \<Rightarrow> game_state" where
  "setInterval s =
     s\<lparr>timerInterval := Some (nextIntervalId s),
       intervals := intervals s @ [nextIntervalId s],
       nextIntervalId := Suc (nextIntervalId s)\<rparr>"

subsection \<open>The game: endGame, the timer callback, startGame\<close>

text \<open>
  \<^verbatim>\<open>
  function endGame(message = `Time's up! Final score: ${score}`) {
      clearInterval(timerInterval);
      gameStarted = false;
      startGameButton.disabled = false;
      gameStatusDisplay.textContent = message;
      countdownDisplay.style.display = 'none';
  }
  \<close>
  \<open>endGame_default\<close> is the call without an argument: the default message is built
  from the score at the time of the call.
\<close>

definition endGame :: "string \<Rightarrow> game_state \<Rightarrow> game_state" where
  "endGame message s =
     (let s1 = clearInterval (timerInterval s) s;
          s2 = s1\<lparr>gameStarted := False\<rparr>;
          s3 = s2\<lparr>startGameButton_disabled := False\<rparr>;
          s4 = s3\<lparr>gameStatusDisplay_textContent := message\<rparr>
      in s4\<lparr>countdownDisplay_display := ''none''\<rparr>)"

definition timeUpMessage :: "game_state \<Rightarrow> string" where
  "timeUpMessage s = ''Time'' @ [CHR 0x27] @ ''s up! Final score: '' @ string_of_int (score s)"

definition endGame_default :: "game_state \<Rightarrow> game_state" where
  "endGame_default s = endGame (timeUpMessage s) s"

text \<open>
  The callback given to \<^verbatim>\<open>setInterval\<close>:
  \<^verbatim>\<open>
  timeLeft--;
  timeElement.textContent = timeLeft;
  if (timeLeft <= 5) {
      timerDisplay.style.color = '';
      countdownDisplay.textContent = timeLeft;
      countdownDisplay.style.display = 'block';
  } else {
      timerDisplay.style.color = 'white';
      countdownDisplay.style.display = 'none';
  }
  if (timeLeft <= 0) { endGame(); }
  \<close>
\<close>

definition timer_callback :: "game_state \<Rightarrow> game_state" where
  "timer_callback s =
     (let s1 = s\<lparr>timeLeft := timeLeft s - 1\<rparr>;
          s2 = s1\<lparr>timeElement_textContent := string_of_int (timeLeft s1)\<rparr>;
          s3 = (if timeLeft s2 \<le> 5 then
                  s2\<lparr>timerDisplay_color := '''',
                     countdownDisplay_textContent := string_of_int (timeLeft s2),
                     countdownDisplay_display := ''block''\<rparr>
                else
                  s2\<lparr>timerDisplay_color := ''white'',
                     countdownDisplay_display := ''none''\<rparr>)
      in if timeLeft s3 \<le> 0 then endGame_default s3 else s3)"

text \<open>
  \<^verbatim>\<open>
  function startGame() {
      if (gameStarted) return;
      gameStarted = true;
      score = 0;
      timeLeft = 30;
      scoreDisplay.textContent = `Score: ${score}`;
      timerDisplay.style.color = 'white';
      timeElement.textContent = `${timeLeft}`;
      countdownDisplay.style.display = 'none';
      gameStatusDisplay.textContent = "Game in progress...";
      startGameButton.disabled = true;
      timerInterval = setInterval(() => { ... }, 1000);
  }
  \<close>
\<close>

definition startGame :: "game_state \<Rightarrow> game_state" where
  "startGame s =
     (if gameStarted s then s
      else
        let s1 = s\<lparr>gameStarted := True\<rparr>;
            s2 = s1\<lparr>score := 0\<rparr>;
            s3 = s2\<lparr>timeLeft := 30\<rparr>;
            s4 = s3\<lparr>scoreDisplay_textContent := ''Score: '' @ string_of_int (score s3)\<rparr>;
            s5 = s4\<lparr>timerDisplay_color := ''white''\<rparr>;
            s6 = s5\<lparr>timeElement_textContent := string_of_int (timeLeft s5)\<rparr>;
            s7 = s6\<lparr>countdownDisplay_display := ''none''\<rparr>;
            s8 = s7\<lparr>gameStatusDisplay_textContent := ''Game in progress...''\<rparr>;
            s9 = s8\<lparr>startGameButton_disabled := True\<rparr>
        in setInterval s9)"

subsection \<open>The game: pointer handler\<close>

text \<open>
  An entry of \<open>mocList\<close>, built once at load time as
  \<^verbatim>\<open>{ moc, text: moc_with_text.text, isTarget: moc_with_text.isTarget }\<close>.
  The field \<open>text\<close> is written \<open>text'\<close> here. \<open>mocList\<close> is assigned before the
  handler is registered and never again, so the handler takes it as an argument.
\<close>

record 'c item =
  moc :: "'c moc_object"
  text' :: string
  isTarget :: bool

text \<open>
  \<^verbatim>\<open>
  aladin.on('mouseMove', function (pos) {
      if (!pos || !gameStarted) return;
      let found = false;
      mocList.forEach(item => {
          const isInMOC = item.moc.contains(pos.ra, pos.dec);
          if (isInMOC) {
              found = true;
              if (item.isTarget && !cursorInMOC) {
                  score += 10;
                  scoreDisplay.textContent = `Score: ${score}`;
                  popup.textContent = item.text;
                  popup.style.display = 'block';
                  if (successSound) { successSound.currentTime = 0; successSound.play()... }
                  endGame("Congratulations! You found the Large Magellanic Cloud!");
              } else if (!item.isTarget && !cursorInMOC) {
                  popup.textContent = item.text;
                  popup.style.display = 'block';
                  if (errorSound) { errorSound.currentTime = 0; errorSound.play()... }
              }
              cursorInMOC = true;
          }
      });
      if (!found && cursorInMOC) {
          cursorInMOC = false;
          popup.style.display = 'none';
      }
  });
  \<close>
  \<open>forEach_callback\<close> is the arrow function; it works on the local \<open>found\<close> and
  on the state. The two audio elements exist (the script sets their volume when it loads),
  so the tests \<^verbatim>\<open>if (successSound)\<close> and \<^verbatim>\<open>if (errorSound)\<close> succeed.
\<close>

definition forEach_callback ::
  "'c position \<Rightarrow> 'c item \<Rightarrow> bool \<times> game_state \<Rightarrow> bool \<times> game_state" where
  "forEach_callback pos item fs =
     (case fs of (found, s) \<Rightarrow>
        let isInMOC = moc item (ra pos) (dec pos) in
        if isInMOC then
          let s' =
            (if isTarget item \<and> \<not> cursorInMOC s then
               let s1 = s\<lparr>score := score s + 10\<rparr>;
                   s2 = s1\<lparr>scoreDisplay_textContent := ''Score: '' @ string_of_int (score s1)\<rparr>;
                   s3 = s2\<lparr>popup_textContent := text' item\<rparr>;
                   s4 = s3\<lparr>popup_display := ''block''\<rparr>;
                   s5 = s4\<lparr>played := played s4 @ [SuccessSound]\<rparr>
               in endGame ''Congratulations! You found the Large Magellanic Cloud!'' s5
             else if \<not> isTarget item \<and> \<not> cursorInMOC s then
               let s1 = s\<lparr>popup_textContent := text' item\<rparr>;
                   s2 = s1\<lparr>popup_display := ''block''\<rparr>
               in s2\<lparr>played := played s2 @ [ErrorSound]\<rparr>
             else s)
          in (True, s'\<lparr>cursorInMOC := True\<rparr>)
        else (found, s))"

fun mocList_forEach ::
  "'c position \<Rightarrow> 'c item list \<Rightarrow> bool \<times> game_state \<Rightarrow> bool \<times> game_state" where
  "mocList_forEach pos [] fs = fs"
| "mocList_forEach pos (item # items) fs =
     mocList_forEach pos items (forEach_callback pos item fs)"

definition mouseMove ::
  "'c item list \<Rightarrow> 'c position option \<Rightarrow> game_state \<Rightarrow> game_state" where
  "mouseMove mocList pos s =
     (case pos of
        None \<Rightarrow> s
      | Some p \<Rightarrow>
          if \<not> gameStarted s then s
          else
            (case mocList_forEach p mocList (False, s) of
               (found, s1) \<Rightarrow>
                 if \<not> found \<and> cursorInMOC s1 then
                   s1\<lparr>cursorInMOC := False, popup_display := ''none''\<rparr>
                 else s1))"

subsection \<open>The game: events\<close>

text \<open>
  The page runs one handler at a time, to completion. The events are a click on the start
  button (\<^verbatim>\<open>startGameButton.addEventListener('click', startGame)\<close>), a pointer move
  reported by the viewer, and the browser firing the interval with a given id, which runs
  the timer callback if that interval is still scheduled.
\<close>

datatype 'c event = Click | MouseMove "'c position option" | Tick nat

definition step :: "'c item list \<Rightarrow> 'c event \<Rightarrow> game_state \<Rightarrow> game_state" where
  "step mocList e s =
     (case e of
        Click \<Rightarrow> startGame s
      | MouseMove pos \<Rightarrow> mouseMove mocList pos s
      | Tick i \<Rightarrow> if i \<in> set (intervals s) then timer_callback s else s)"

fun run :: "'c item list \<Rightarrow> 'c event list \<Rightarrow> game_state \<Rightarrow> game_state" where
  "run mocList [] s = s"
| "run mocList (e # es) s = run mocList es (step mocList e s)"

text \<open>
  The state when the script has loaded: the initial values of the module-level variables
  (\<^verbatim>\<open>cursorInMOC = false\<close>, \<^verbatim>\<open>gameStarted = false\<close>, \<^verbatim>\<open>score = 0\<close>,
  \<^verbatim>\<open>timeLeft = 30\<close>, \<^verbatim>\<open>timerInterval\<close> undefined), no interval scheduled, nothing
  played. The DOM properties come from the page and are left open.
\<close>

definition initial :: "game_state \<Rightarrow> bool" where
  "initial s =
     (\<not> cursorInMOC s \<and> \<not> gameStarted s \<and> score s = 0 \<and> timeLeft s = 30 \<and>
      timerInterval s = None \<and> intervals s = [] \<and> played s = [])"

text \<open>The first region of the list, in list order, that contains the position.\<close>

definition first_containing :: "'c item list \<Rightarrow> 'c position \<Rightarrow> 'c item option" where
  "first_containing mocList p = find (\<lambda>item. moc item (ra p) (dec p)) mocList"

subsection \<open>Predicates used in the statements\<close>

text \<open>
  The interval bookkeeping of the game: while the game runs, exactly the interval named by
  \<open>timerInterval\<close> is scheduled; while it does not run, none is.
\<close>

definition timer_inv :: "game_state \<Rightarrow> bool" where
  "timer_inv s =
     (if gameStarted s then map Some (intervals s) = [timerInterval s] else intervals s = [])"

text \<open>
  No early termination along a sequence of events: no pointer event changes
  \<open>gameStarted\<close>, that is, the pointer handler never reaches its call of \<open>endGame\<close>
  (nothing else in the handler assigns \<open>gameStarted\<close>).
\<close>

fun no_early_end :: "'c item list \<Rightarrow> 'c event list \<Rightarrow> game_state \<Rightarrow> bool" where
  "no_early_end mocList [] s = True"
| "no_early_end mocList (e # es) s =
     ((case e of
         MouseMove pos \<Rightarrow> gameStarted (mouseMove mocList pos s) = gameStarted s
       | _ \<Rightarrow> True)
      \<and> no_early_end mocList es (step mocList e s))"

subsection \<open>Example data\<close>

text \<open>
  A loaded page before the first click: the popup hidden and empty, the start button
  enabled. Coordinates are whole degrees here. \<open>lmc_region\<close> is the target; \<open>smc_region\<close>
  and \<open>southern_sky\<close> are not, and \<open>southern_sky\<close> overlaps both.
\<close>

definition example_initial :: game_state where
  "example_initial =
     \<lparr>cursorInMOC = False, gameStarted = False, score = 0, timeLeft = 30,
      timerInterval = None, popup_textContent = '''', popup_display = ''none'',
      scoreDisplay_textContent = ''Score: 0'', timerDisplay_color = ''white'',
      timeElement_textContent = ''30'', countdownDisplay_textContent = '''',
      countdownDisplay_display = ''none'', gameStatusDisplay_textContent = '''',
      startGameButton_disabled = False, intervals = [], nextIntervalId = 1, played = []\<rparr>"

definition lmc_region :: "int item" where
  "lmc_region =
     \<lparr>moc = (\<lambda>r d. 70 \<le> r \<and> r \<le> 90 \<and> - 75 \<le> d \<and> d \<le> - 65),
      text' = ''Large Magellanic Cloud'', isTarget = True\<rparr>"

definition smc_region :: "int item" where
  "smc_region =
     \<lparr>moc = (\<lambda>r d. 5 \<le> r \<and> r \<le> 25 \<and> - 78 \<le> d \<and> d \<le> - 68),
      text' = ''Small Magellanic Cloud'', isTarget = False\<rparr>"

definition southern_sky :: "int item" where
  "southern_sky =
     \<lparr>moc = (\<lambda>r d. d \<le> 0), text' = ''Southern sky'', isTarget = False\<rparr>"

definition in_lmc :: "int position" where
  "in_lmc = \<lparr>ra = 80, dec = - 70\<rparr>"

definition in_smc :: "int position" where
  "in_smc = \<lparr>ra = 13, dec = - 73\<rparr>"

definition northern_point :: "int position" where
  "northern_point = \<lparr>ra = 200, dec = 40\<rparr>"

definition example_state_d1 :: "string state_d1" where
  "example_state_d1 =
     \<lparr>cursorInMOC_d1 = False, soundsEnabled_d1 = False, mocText_d1 = '''',
      popup_display_d1 = ''none'', popup_textContent_d1 = '''',
      soundToggle_textContent_d1 = ''Enable Sounds'', effects_d1 = []\<rparr>"

definition example_record :: "string js_object" where
  "example_record =
     [(''order'', ''5''), (''text'', ''Large Magellanic Cloud''), (''isTarget'', ''true'')]"

text \<open>
  What \<^verbatim>\<open>JSON.parse\<close> returns for
  \<^verbatim>\<open>{"__proto__": "p", "order": "5", "text": "Large Magellanic Cloud"}\<close>.
\<close>

definition example_proto_record :: "string js_object" where
  "example_proto_record =
     [(''__proto__'', ''p''), (''order'', ''5''), (''text'', ''Large Magellanic Cloud'')]"

section \<open>The region-text splitter\<close>

lemma map_of_assign_property:
  "map_of (assign_property key v mocData) =
     (if key = ''__proto__'' then map_of mocData else (map_of mocData)(key \<mapsto> v))"
  by (simp add: assign_property_def AList.update_conv')

lemma distinct_assign_property:
  "distinct (map fst mocData) \<Longrightarrow> distinct (map fst (assign_property key v mocData))"
  by (simp add: assign_property_def AList.distinct_update)

lemma processMOCWithText_loop_map_of:
  "map_of (processMOCWithText_loop keys src acc) k =
     (if k \<in> set keys \<and> k \<noteq> ''text'' \<and> k \<noteq> ''isTarget'' \<and> k \<noteq> ''__proto__''
         \<and> map_of src k \<noteq> None
      then map_of src k else map_of acc k)"
proof (induction keys arbitrary: acc)
  case Nil
  show ?case by simp
next
  case (Cons key keys)
  show ?case
  proof (cases "map_of src key")
    case None
    then have "processMOCWithText_loop (key # keys) src acc =
        processMOCWithText_loop keys src acc"
      by simp
    with None show ?thesis by (auto simp: Cons.IH)
  next
    case (Some v)
    define acc' where
      "acc' = (if key \<noteq> ''text'' \<and> key \<noteq> ''isTarget'' then assign_property key v acc else acc)"
    have step: "processMOCWithText_loop (key # keys) src acc =
        processMOCWithText_loop keys src acc'"
      using Some by (simp add: acc'_def)
    have acc'k: "map_of acc' k =
        (if key = k \<and> k \<noteq> ''text'' \<and> k \<noteq> ''isTarget'' \<and> k \<noteq> ''__proto__''
         then Some v else map_of acc k)"
      by (simp add: acc'_def map_of_assign_property)
    show ?thesis
      unfolding step Cons.IH[of acc'] acc'k using Some by auto
  qed
qed

lemma processMOCWithText_d1_loop_map_of:
  "map_of (fst (processMOCWithText_d1_loop keys src (acc, s))) k =
     (if k \<in> set keys \<and> k \<noteq> ''text'' \<and> k \<noteq> ''__proto__'' \<and> map_of src k \<noteq> None
      then map_of src k else map_of acc k)"
proof (induction keys arbitrary: acc s)
  case Nil
  show ?case by simp
next
  case (Cons key keys)
  show ?case
  proof (cases "map_of src key")
    case None
    then have "processMOCWithText_d1_loop (key # keys) src (acc, s) =
        processMOCWithText_d1_loop keys src (acc, s)"
      by simp
    with None show ?thesis by (auto simp: Cons.IH)
  next
    case (Some v)
    define acc' where "acc' = (if key = ''text'' then acc else assign_property key v acc)"
    define s' where "s' = (if key = ''text'' then s\<lparr>mocText_d1 := v\<rparr> else s)"
    have step: "processMOCWithText_d1_loop (key # keys) src (acc, s) =
        processMOCWithText_d1_loop keys src (acc', s')"
      using Some by (simp add: acc'_def s'_def)
    have acc'k: "map_of acc' k =
        (if key = k \<and> k \<noteq> ''text'' \<and> k \<noteq> ''__proto__'' then Some v else map_of acc k)"
      by (simp add: acc'_def map_of_assign_property)
    show ?thesis
      unfolding step Cons.IH[of acc' s'] acc'k using Some by auto
  qed
qed

lemma processMOCWithText_loop_distinct:
  "distinct (map fst acc) \<Longrightarrow> distinct (map fst (processMOCWithText_loop keys src acc))"
  by (induction keys arbitrary: acc) (simp_all add: distinct_assign_property split: option.splits)

lemma processMOCWithText_d1_loop_distinct:
  "distinct (map fst acc) \<Longrightarrow>
     distinct (map fst (fst (processMOCWithText_d1_loop keys src (acc, s))))"
  by (induction keys arbitrary: acc s) (simp_all add: distinct_assign_property split: option.splits)

lemma map_of_None_keys_of: "(map_of obj k = None) = (k \<notin> set (keys_of obj))"
  by (simp add: keys_of_def map_of_eq_None_iff)

lemma processMOCWithText_d1_loop_state:
  "snd (processMOCWithText_d1_loop keys src (acc, s)) =
     (case map_of src ''text'' of
        None \<Rightarrow> s
      | Some t \<Rightarrow> if ''text'' \<in> set keys then s\<lparr>mocText_d1 := t\<rparr> else s)"
  by (induction keys arbitrary: acc s) (auto split: option.splits)

lemma processMOCWithText_d1_loop_result:
  "fst (processMOCWithText_d1_loop keys src (acc, s)) =
   fst (processMOCWithText_d1_loop keys src (acc, s'))"
  by (induction keys arbitrary: acc s s') (auto split: option.splits)

text \<open>
  The fields of the result, for every input record: the splitter keeps each field other
  than \<open>text\<close> (and, in the game script, \<open>isTarget\<close>) with the value it has in the input,
  except a field named \<^verbatim>\<open>__proto__\<close>, which it loses. No key occurs twice in the result.
\<close>

lemma processMOCWithText_own_fields:
  "map_of (processMOCWithText obj) k =
     (if k = ''text'' \<or> k = ''isTarget'' \<or> k = ''__proto__'' then None else map_of obj k)
   \<and> map_of (fst (processMOCWithText_d1 obj s)) k =
     (if k = ''text'' \<or> k = ''__proto__'' then None else map_of obj k)
   \<and> distinct (keys_of (processMOCWithText obj))
   \<and> distinct (keys_of (fst (processMOCWithText_d1 obj s)))"
proof -
  have game: "map_of (processMOCWithText obj) k =
     (if k = ''text'' \<or> k = ''isTarget'' \<or> k = ''__proto__'' then None else map_of obj k)"
    using map_of_None_keys_of[of obj k]
    by (auto simp: processMOCWithText_def processMOCWithText_loop_map_of)
  have d1: "map_of (fst (processMOCWithText_d1 obj s)) k =
     (if k = ''text'' \<or> k = ''__proto__'' then None else map_of obj k)"
    using map_of_None_keys_of[of obj k]
    by (auto simp: processMOCWithText_d1_def processMOCWithText_d1_loop_map_of)
  have "distinct (map fst (processMOCWithText_loop (keys_of obj) obj []))"
    by (rule processMOCWithText_loop_distinct) simp
  then have game_keys: "distinct (keys_of (processMOCWithText obj))"
    by (simp add: keys_of_def processMOCWithText_def)
  have "distinct (map fst (fst (processMOCWithText_d1_loop (keys_of obj) obj ([], s))))"
    by (rule processMOCWithText_d1_loop_distinct) simp
  then have d1_keys: "distinct (keys_of (fst (processMOCWithText_d1 obj s)))"
    by (simp add: keys_of_def processMOCWithText_d1_def)
  from game d1 game_keys d1_keys show ?thesis by blast
qed

text \<open>
  C1. The splitter is to return the input's fields minus \<open>text\<close> (and, in the game
  script, minus \<open>isTarget\<close>), every remaining field with its value. Both scripts miss one
  case: the record below has the fields \<^verbatim>\<open>__proto__\<close>, \<open>order\<close> and \<open>text\<close>, and both
  splitters return the field \<open>order\<close> alone. The field \<^verbatim>\<open>__proto__\<close> is lost.
\<close>

theorem processMOCWithText_loses_proto_field:
  "map_of example_proto_record ''__proto__'' = Some ''p''
   \<and> processMOCWithText example_proto_record = [(''order'', ''5'')]
   \<and> map_of (processMOCWithText example_proto_record) ''__proto__'' = None
   \<and> fst (processMOCWithText_d1 example_proto_record example_state_d1) = [(''order'', ''5'')]
   \<and> map_of (fst (processMOCWithText_d1 example_proto_record example_state_d1)) ''__proto__'' =
       None"
  by (simp add: processMOCWithText_def processMOCWithText_d1_def keys_of_def
      assign_property_def example_proto_record_def example_state_d1_def)

text \<open>
  C7, as amended. The splitter returns for every input record, and what it returns depends
  on the record alone. The game script's splitter touches nothing but its argument and its
  result (\<open>processMOCWithText\<close> has no state argument). The popup demo's splitter has one
  side effect: when the record has a \<open>text\<close> field it assigns that field's value to the
  module-level variable \<open>mocText\<close>; every other variable and DOM property keeps its value,
  and without a \<open>text\<close> field the whole state is unchanged.
\<close>

theorem processMOCWithText_d1_frame:
  "snd (processMOCWithText_d1 obj s) =
     (case map_of obj ''text'' of None \<Rightarrow> s | Some t \<Rightarrow> s\<lparr>mocText_d1 := t\<rparr>)
   \<and> fst (processMOCWithText_d1 obj s) = fst (processMOCWithText_d1 obj s')
   \<and> map_of (processMOCWithText obj) =
       (map_of (fst (processMOCWithText_d1 obj s)))(''isTarget'' := None)"
proof -
  have st: "snd (processMOCWithText_d1 obj s) =
     (case map_of obj ''text'' of None \<Rightarrow> s | Some t \<Rightarrow> s\<lparr>mocText_d1 := t\<rparr>)"
    using map_of_None_keys_of[of obj "''text''"]
    by (auto simp: processMOCWithText_d1_def processMOCWithText_d1_loop_state
        split: option.splits)
  have res: "fst (processMOCWithText_d1 obj s) = fst (processMOCWithText_d1 obj s')"
    unfolding processMOCWithText_d1_def by (rule processMOCWithText_d1_loop_result)
  have "map_of (processMOCWithText obj) k =
       ((map_of (fst (processMOCWithText_d1 obj s)))(''isTarget'' := None)) k" for k
    using map_of_None_keys_of[of obj k]
    by (auto simp: processMOCWithText_def processMOCWithText_loop_map_of
        processMOCWithText_d1_def processMOCWithText_d1_loop_map_of)
  then have rel: "map_of (processMOCWithText obj) =
       (map_of (fst (processMOCWithText_d1 obj s)))(''isTarget'' := None)"
    by (rule ext)
  from st res rel show ?thesis by blast
qed

text \<open>
  C7 as stated fails for the popup demo: splitting a record with a \<open>text\<close> field changes
  the module-level variable \<open>mocText\<close>.
\<close>

theorem processMOCWithText_d1_writes_mocText_counterexample:
  "mocText_d1 example_state_d1 = ''''
   \<and> mocText_d1 (snd (processMOCWithText_d1 example_record example_state_d1)) =
       ''Large Magellanic Cloud''"
  by (simp add: processMOCWithText_d1_def keys_of_def example_record_def example_state_d1_def)

section \<open>The pointer handlers\<close>

subsection \<open>The loop over the regions\<close>

lemma cursorInMOC_True_idem: "cursorInMOC s \<Longrightarrow> s\<lparr>cursorInMOC := True\<rparr> = s"
  by (cases s) simp

lemma forEach_callback_outside:
  "\<not> moc item (ra p) (dec p) \<Longrightarrow> forEach_callback p item fs = fs"
  by (simp add: forEach_callback_def split: prod.splits)

lemma forEach_callback_inside_again:
  "cursorInMOC s \<Longrightarrow> forEach_callback p item (True, s) = (True, s)"
  by (simp add: forEach_callback_def cursorInMOC_True_idem)

lemma mocList_forEach_outside:
  "\<forall>item\<in>set mocList. \<not> moc item (ra p) (dec p) \<Longrightarrow> mocList_forEach p mocList fs = fs"
  by (induction mocList arbitrary: fs) (simp_all add: forEach_callback_outside)

lemma mocList_forEach_inside_again:
  "cursorInMOC s \<Longrightarrow> mocList_forEach p mocList (True, s) = (True, s)"
  by (induction mocList) (simp_all add: forEach_callback_inside_again)

lemma forEach_callback_inside:
  "moc item (ra p) (dec p) \<Longrightarrow>
     fst (forEach_callback p item (found, s)) \<and> cursorInMOC (snd (forEach_callback p item (found, s)))"
  by (simp add: forEach_callback_def Let_def)

lemma mocList_forEach_first:
  "first_containing mocList p = Some item \<Longrightarrow>
     mocList_forEach p mocList (False, s) = forEach_callback p item (False, s)"
proof (induction mocList)
  case Nil
  then show ?case by (simp add: first_containing_def)
next
  case (Cons a mocList)
  show ?case
  proof (cases "moc a (ra p) (dec p)")
    case True
    with Cons.prems have "a = item" by (simp add: first_containing_def)
    obtain s' where s': "forEach_callback p item (False, s) = (True, s')" "cursorInMOC s'"
      using forEach_callback_inside[of a p False s] True \<open>a = item\<close>
      by (cases "forEach_callback p item (False, s)") auto
    then show ?thesis using \<open>a = item\<close> by (simp add: mocList_forEach_inside_again)
  next
    case False
    with Cons show ?thesis by (simp add: first_containing_def forEach_callback_outside)
  qed
qed

lemma first_containing_inside:
  "first_containing mocList p = Some item \<Longrightarrow> moc item (ra p) (dec p)"
  by (auto simp: first_containing_def find_Some_iff)

lemma mouseMove_first:
  "first_containing mocList p = Some item \<Longrightarrow> gameStarted s \<Longrightarrow>
     mouseMove mocList (Some p) s = snd (forEach_callback p item (False, s))"
  using forEach_callback_inside[of item p False s]
  by (auto simp: mouseMove_def mocList_forEach_first first_containing_inside split: prod.splits)

lemma mouseMove_not_started: "\<not> gameStarted s \<Longrightarrow> mouseMove mocList pos s = s"
  by (simp add: mouseMove_def split: option.splits)

lemma mouseMove_outside:
  "\<forall>item\<in>set mocList. \<not> moc item (ra p) (dec p) \<Longrightarrow>
     mouseMove mocList (Some p) s =
       (if gameStarted s \<and> cursorInMOC s
        then s\<lparr>cursorInMOC := False, popup_display := ''none''\<rparr> else s)"
  by (simp add: mouseMove_def mocList_forEach_outside)

lemma mouseMove_d1_outside:
  "\<not> m (ra p) (dec p) \<Longrightarrow>
     popup_display_d1 (mouseMove_d1 m (Some p) s) =
       (if cursorInMOC_d1 s then ''none'' else popup_display_d1 s)"
  by (simp add: mouseMove_d1_def Let_def)

lemma endGame_fields:
  "\<not> gameStarted (endGame m s)"
  "\<not> startGameButton_disabled (endGame m s)"
  "gameStatusDisplay_textContent (endGame m s) = m"
  "intervals (endGame m s) = intervals (clearInterval (timerInterval s) s)"
  "timerInterval (endGame m s) = timerInterval s"
  "score (endGame m s) = score s"
  "timeLeft (endGame m s) = timeLeft s"
  "cursorInMOC (endGame m s) = cursorInMOC s"
  by (simp_all add: endGame_def clearInterval_def Let_def split: option.splits)

subsection \<open>No position\<close>

text \<open>
  C9. A pointer-move event that delivers no position leaves the whole state as it was, in
  both scripts: the flags, the score, the popup, every other variable and DOM property,
  and the record of sounds played and messages logged.
\<close>

theorem mouseMove_null_noop:
  "mouseMove_d1 m None s = s \<and> mouseMove mocList None g = g"
  by (simp add: mouseMove_d1_def mouseMove_def)

subsection \<open>Leaving all regions\<close>

text \<open>
  C3, as amended. For a pointer-move event whose position lies outside all regions, the
  popup is hidden after the handler when \<open>cursorInMOC\<close> was true before it and, in the
  game, the game was running. In every other prior state the popup keeps the display
  style it had.
\<close>

theorem leaving_regions_hides_popup:
  "((\<forall>item\<in>set mocList. \<not> moc item (ra p) (dec p)) \<longrightarrow>
      popup_display (mouseMove mocList (Some p) g) =
        (if gameStarted g \<and> cursorInMOC g then ''none'' else popup_display g))
   \<and> (\<not> m (ra q) (dec q) \<longrightarrow>
      popup_display_d1 (mouseMove_d1 m (Some q) s) =
        (if cursorInMOC_d1 s then ''none'' else popup_display_d1 s))"
  by (simp add: mouseMove_outside mouseMove_d1_outside)

text \<open>
  An instance: in a running game the pointer is inside the Small Magellanic Cloud (popup
  shown), then moves to a point outside both regions; in the popup demo it is inside the
  region and then leaves it.
\<close>

theorem leaving_regions_hides_popup_witness:
  "\<not> moc lmc_region (ra northern_point) (dec northern_point)
   \<and> \<not> moc smc_region (ra northern_point) (dec northern_point)
   \<and> gameStarted (run [lmc_region, smc_region] [Click, MouseMove (Some in_smc)] example_initial)
   \<and> cursorInMOC (run [lmc_region, smc_region] [Click, MouseMove (Some in_smc)] example_initial)
   \<and> popup_display (run [lmc_region, smc_region] [Click, MouseMove (Some in_smc)] example_initial)
       = ''block''
   \<and> popup_display
        (mouseMove [lmc_region, smc_region] (Some northern_point)
           (run [lmc_region, smc_region] [Click, MouseMove (Some in_smc)] example_initial))
       = ''none''
   \<and> cursorInMOC_d1 (mouseMove_d1 (moc lmc_region) (Some in_lmc) example_state_d1)
   \<and> popup_display_d1
        (mouseMove_d1 (moc lmc_region) (Some northern_point)
           (mouseMove_d1 (moc lmc_region) (Some in_lmc) example_state_d1))
       = ''none''"
proof -
  have out: "\<forall>item\<in>set [lmc_region, smc_region].
      \<not> moc item (ra northern_point) (dec northern_point)"
    by (simp add: lmc_region_def smc_region_def northern_point_def)
  have out1: "\<not> moc lmc_region (ra northern_point) (dec northern_point)"
    by (simp add: lmc_region_def northern_point_def)
  have st: "gameStarted (run [lmc_region, smc_region] [Click, MouseMove (Some in_smc)] example_initial)
    \<and> cursorInMOC (run [lmc_region, smc_region] [Click, MouseMove (Some in_smc)] example_initial)
    \<and> popup_display (run [lmc_region, smc_region] [Click, MouseMove (Some in_smc)] example_initial)
       = ''block''"
    by (simp add: step_def startGame_def setInterval_def mouseMove_def forEach_callback_def
        Let_def example_initial_def lmc_region_def smc_region_def in_smc_def)
  have st1: "cursorInMOC_d1 (mouseMove_d1 (moc lmc_region) (Some in_lmc) example_state_d1)"
    by (simp add: mouseMove_d1_def Let_def lmc_region_def in_lmc_def example_state_d1_def)
  from leaving_regions_hides_popup[of "[lmc_region, smc_region]" northern_point
      "run [lmc_region, smc_region] [Click, MouseMove (Some in_smc)] example_initial"
      "moc lmc_region" northern_point
      "mouseMove_d1 (moc lmc_region) (Some in_lmc) example_state_d1"]
    out out1 st st1
  show ?thesis by simp
qed

text \<open>
  C3 as stated fails: after the target has been found the game is over and the popup is
  shown; a pointer move to a point outside all regions then returns at
  \<^verbatim>\<open>if (!pos || !gameStarted) return\<close> and the popup stays visible.
\<close>

theorem leaving_regions_popup_counterexample:
  "\<not> moc lmc_region (ra northern_point) (dec northern_point)
   \<and> \<not> moc smc_region (ra northern_point) (dec northern_point)
   \<and> popup_display
        (mouseMove [lmc_region, smc_region] (Some northern_point)
           (run [lmc_region, smc_region] [Click, MouseMove (Some in_lmc)] example_initial))
       = ''block''"
  by (simp add: step_def startGame_def setInterval_def mouseMove_def forEach_callback_def
      endGame_def clearInterval_def Let_def example_initial_def lmc_region_def smc_region_def
      in_lmc_def northern_point_def)

subsection \<open>Overlapping regions\<close>

text \<open>
  C6. When the position lies inside one or more regions, the handler does exactly what it
  would do if the first containing region, in list order, were the only region: the score
  change, the popup text, the sound and the end of the session are those of that region,
  and the regions after it add nothing (the whole resulting state is the same). This holds
  in particular when two or more regions overlap at the position and \<open>cursorInMOC\<close> is
  false when the event arrives.
\<close>

theorem first_region_wins:
  "first_containing mocList p = Some item \<Longrightarrow>
     mouseMove mocList (Some p) s = mouseMove [item] (Some p) s"
  by (simp add: mouseMove_def mocList_forEach_first)

text \<open>
  An instance: the point lies in \<open>southern_sky\<close> and in the target \<open>lmc_region\<close>;
  \<open>southern_sky\<close> comes first, so its text is shown, the error cue is played once and the
  session goes on.
\<close>

theorem first_region_wins_witness:
  "first_containing [smc_region, southern_sky, lmc_region] in_lmc = Some southern_sky
   \<and> moc lmc_region (ra in_lmc) (dec in_lmc)
   \<and> \<not> cursorInMOC (startGame example_initial)
   \<and> mouseMove [smc_region, southern_sky, lmc_region] (Some in_lmc) (startGame example_initial) =
       mouseMove [southern_sky] (Some in_lmc) (startGame example_initial)
   \<and> played (mouseMove [smc_region, southern_sky, lmc_region] (Some in_lmc)
               (startGame example_initial)) = [ErrorSound]
   \<and> score (mouseMove [smc_region, southern_sky, lmc_region] (Some in_lmc)
               (startGame example_initial)) = 0"
proof -
  have first: "first_containing [smc_region, southern_sky, lmc_region] in_lmc = Some southern_sky"
    by (simp add: first_containing_def smc_region_def southern_sky_def in_lmc_def)
  have rest: "moc lmc_region (ra in_lmc) (dec in_lmc) \<and> \<not> cursorInMOC (startGame example_initial)
    \<and> played (mouseMove [southern_sky] (Some in_lmc) (startGame example_initial)) = [ErrorSound]
    \<and> score (mouseMove [southern_sky] (Some in_lmc) (startGame example_initial)) = 0"
    by (simp add: startGame_def setInterval_def mouseMove_def forEach_callback_def
        Let_def example_initial_def lmc_region_def southern_sky_def in_lmc_def)
  from first_region_wins[OF first, of "startGame example_initial"] first rest
  show ?thesis by simp
qed

subsection \<open>Entering a region\<close>

text \<open>
  C2, as amended. In the game, for a pointer-move event delivered while \<open>gameStarted\<close>
  is true and \<open>cursorInMOC\<close> is false, if the first region in list order that contains
  the position is a target region, then the handler increases the score by exactly 10,
  shows that region's text, plays the success cue and ends the session through
  \<open>endGame\<close> (the countdown interval is cleared, \<open>gameStarted\<close> becomes false). The
  score is not increased again while the pointer stays there: a pointer event that follows
  finds the session ended and changes nothing.
\<close>

theorem target_entry_scores_and_ends:
  assumes "gameStarted s" and "\<not> cursorInMOC s"
    and "first_containing mocList p = Some item" and "isTarget item"
  shows "mouseMove mocList (Some p) s =
           (endGame ''Congratulations! You found the Large Magellanic Cloud!''
              (s\<lparr>score := score s + 10,
                 scoreDisplay_textContent := ''Score: '' @ string_of_int (score s + 10),
                 popup_textContent := text' item,
                 popup_display := ''block'',
                 played := played s @ [SuccessSound]\<rparr>))\<lparr>cursorInMOC := True\<rparr>
         \<and> score (mouseMove mocList (Some p) s) = score s + 10
         \<and> \<not> gameStarted (mouseMove mocList (Some p) s)
         \<and> intervals (mouseMove mocList (Some p) s) =
             intervals (clearInterval (timerInterval s) s)
         \<and> (\<forall>q. mouseMove mocList q (mouseMove mocList (Some p) s) =
                  mouseMove mocList (Some p) s)"
proof -
  let ?s' = "mouseMove mocList (Some p) s"
  have eq: "?s' =
           (endGame ''Congratulations! You found the Large Magellanic Cloud!''
              (s\<lparr>score := score s + 10,
                 scoreDisplay_textContent := ''Score: '' @ string_of_int (score s + 10),
                 popup_textContent := text' item,
                 popup_display := ''block'',
                 played := played s @ [SuccessSound]\<rparr>))\<lparr>cursorInMOC := True\<rparr>"
    using assms
    by (simp add: mouseMove_first forEach_callback_def first_containing_inside Let_def)
  have ended: "\<not> gameStarted ?s'"
    by (simp add: eq endGame_fields)
  have sc: "score ?s' = score s + 10"
    by (simp add: eq endGame_fields)
  have iv: "intervals ?s' = intervals (clearInterval (timerInterval s) s)"
    by (simp add: eq endGame_fields clearInterval_def split: option.splits)
  from ended have "\<forall>q. mouseMove mocList q ?s' = ?s'"
    by (simp add: mouseMove_not_started)
  with eq ended sc iv show ?thesis by blast
qed

text \<open>
  An instance: a fresh game, the pointer enters the Large Magellanic Cloud, which no
  earlier region of the list contains.
\<close>

theorem target_entry_scores_and_ends_witness:
  "gameStarted (startGame example_initial)
   \<and> \<not> cursorInMOC (startGame example_initial)
   \<and> first_containing [smc_region, lmc_region, southern_sky] in_lmc = Some lmc_region
   \<and> isTarget lmc_region
   \<and> score (mouseMove [smc_region, lmc_region, southern_sky] (Some in_lmc)
              (startGame example_initial)) = 10
   \<and> \<not> gameStarted (mouseMove [smc_region, lmc_region, southern_sky] (Some in_lmc)
              (startGame example_initial))
   \<and> intervals (mouseMove [smc_region, lmc_region, southern_sky] (Some in_lmc)
              (startGame example_initial)) = []"
proof -
  have h1: "gameStarted (startGame example_initial)"
    and h2: "\<not> cursorInMOC (startGame example_initial)"
    and sc: "score (startGame example_initial) = 0"
    and iv: "intervals (clearInterval (timerInterval (startGame example_initial))
                 (startGame example_initial)) = []"
    by (simp_all add: startGame_def setInterval_def clearInterval_def Let_def
        example_initial_def)
  have h3: "first_containing [smc_region, lmc_region, southern_sky] in_lmc = Some lmc_region"
    by (simp add: first_containing_def smc_region_def lmc_region_def in_lmc_def)
  have h4: "isTarget lmc_region"
    by (simp add: lmc_region_def)
  from target_entry_scores_and_ends[OF h1 h2 h3 h4, THEN conjunct2] h1 h2 h3 h4 sc iv
  show ?thesis by simp
qed

text \<open>
  C2 as stated fails when a non-target region earlier in the list contains the position
  too: the pointer is inside the target, the game is running and \<open>cursorInMOC\<close> is false,
  yet the score stays 0 and the session goes on.
\<close>

theorem target_entry_shadowed_counterexample:
  "gameStarted (startGame example_initial)
   \<and> \<not> cursorInMOC (startGame example_initial)
   \<and> isTarget lmc_region
   \<and> moc lmc_region (ra in_lmc) (dec in_lmc)
   \<and> score (startGame example_initial) = 0
   \<and> score (mouseMove [southern_sky, lmc_region] (Some in_lmc) (startGame example_initial)) = 0
   \<and> gameStarted (mouseMove [southern_sky, lmc_region] (Some in_lmc)
        (startGame example_initial))"
  by (simp add: startGame_def setInterval_def mouseMove_def forEach_callback_def
      Let_def example_initial_def lmc_region_def southern_sky_def in_lmc_def)

text \<open>
  C8, as amended. In the game, for a pointer-move event delivered while the session is
  active and \<open>cursorInMOC\<close> is false, if the first region in list order that contains the
  position is a non-target region, then the handler sets the popup text to that region's
  text, shows the popup, plays the error cue, sets \<open>cursorInMOC\<close>, and changes nothing
  else: \<open>gameStarted\<close> remains true, the timer interval is not cleared, the score is
  unchanged.
\<close>

theorem nontarget_entry_shows_text:
  assumes "gameStarted s" and "\<not> cursorInMOC s"
    and "first_containing mocList p = Some item" and "\<not> isTarget item"
  shows "mouseMove mocList (Some p) s =
           s\<lparr>popup_textContent := text' item, popup_display := ''block'',
             played := played s @ [ErrorSound], cursorInMOC := True\<rparr>
         \<and> gameStarted (mouseMove mocList (Some p) s)
         \<and> intervals (mouseMove mocList (Some p) s) = intervals s
         \<and> timerInterval (mouseMove mocList (Some p) s) = timerInterval s
         \<and> score (mouseMove mocList (Some p) s) = score s"
proof -
  have eq: "mouseMove mocList (Some p) s =
           s\<lparr>popup_textContent := text' item, popup_display := ''block'',
             played := played s @ [ErrorSound], cursorInMOC := True\<rparr>"
    using assms
    by (simp add: mouseMove_first forEach_callback_def first_containing_inside Let_def)
  with assms(1) show ?thesis by simp
qed

text \<open>
  An instance: a fresh game, the pointer enters the Small Magellanic Cloud.
\<close>

theorem nontarget_entry_shows_text_witness:
  "gameStarted (startGame example_initial)
   \<and> \<not> cursorInMOC (startGame example_initial)
   \<and> first_containing [lmc_region, smc_region, southern_sky] in_smc = Some smc_region
   \<and> \<not> isTarget smc_region
   \<and> popup_textContent (mouseMove [lmc_region, smc_region, southern_sky] (Some in_smc)
        (startGame example_initial)) = ''Small Magellanic Cloud''
   \<and> popup_display (mouseMove [lmc_region, smc_region, southern_sky] (Some in_smc)
        (startGame example_initial)) = ''block''
   \<and> played (mouseMove [lmc_region, smc_region, southern_sky] (Some in_smc)
        (startGame example_initial)) = [ErrorSound]
   \<and> gameStarted (mouseMove [lmc_region, smc_region, southern_sky] (Some in_smc)
        (startGame example_initial))
   \<and> intervals (mouseMove [lmc_region, smc_region, southern_sky] (Some in_smc)
        (startGame example_initial)) = [1]
   \<and> score (mouseMove [lmc_region, smc_region, southern_sky] (Some in_smc)
        (startGame example_initial)) = 0"
proof -
  have h1: "gameStarted (startGame example_initial)"
    and h2: "\<not> cursorInMOC (startGame example_initial)"
    and sc: "score (startGame example_initial) = 0"
    and iv: "intervals (startGame example_initial) = [1]"
    and pl: "played (startGame example_initial) = []"
    by (simp_all add: startGame_def setInterval_def Let_def example_initial_def)
  have h3: "first_containing [lmc_region, smc_region, southern_sky] in_smc = Some smc_region"
    by (simp add: first_containing_def smc_region_def lmc_region_def in_smc_def)
  have h4: "\<not> isTarget smc_region" and tx: "text' smc_region = ''Small Magellanic Cloud''"
    by (simp_all add: smc_region_def)
  from nontarget_entry_shows_text[OF h1 h2 h3 h4, THEN conjunct1] h1 h2 h3 h4 sc iv pl tx
  show ?thesis by simp
qed

text \<open>
  C8 as stated fails when the target region comes earlier in the list and contains the
  position too: the pointer is inside the non-target \<open>southern_sky\<close>, the session is
  active and \<open>cursorInMOC\<close> is false, yet the popup shows the target's text, the score
  rises and the session ends.
\<close>

theorem nontarget_entry_shadowed_counterexample:
  "gameStarted (startGame example_initial)
   \<and> \<not> cursorInMOC (startGame example_initial)
   \<and> \<not> isTarget southern_sky
   \<and> moc southern_sky (ra in_lmc) (dec in_lmc)
   \<and> text' southern_sky = ''Southern sky''
   \<and> popup_textContent (mouseMove [lmc_region, southern_sky] (Some in_lmc)
        (startGame example_initial)) = ''Large Magellanic Cloud''
   \<and> played (mouseMove [lmc_region, southern_sky] (Some in_lmc)
        (startGame example_initial)) = [SuccessSound]
   \<and> score (mouseMove [lmc_region, southern_sky] (Some in_lmc)
        (startGame example_initial)) = 10
   \<and> \<not> gameStarted (mouseMove [lmc_region, southern_sky] (Some in_lmc)
        (startGame example_initial))"
  by (simp add: startGame_def setInterval_def mouseMove_def forEach_callback_def
      endGame_def clearInterval_def Let_def example_initial_def lmc_region_def
      southern_sky_def in_lmc_def)

section \<open>Starting and timing a session\<close>

subsection \<open>The interval bookkeeping is preserved by every handler\<close>

lemma endGame_timer_inv: "timer_inv s \<Longrightarrow> timer_inv (endGame m s)"
  by (auto simp: timer_inv_def endGame_fields clearInterval_def split: option.splits if_splits)

lemma forEach_callback_timer_inv:
  "timer_inv s \<Longrightarrow> timer_inv (snd (forEach_callback p item (found, s)))"
  by (auto simp: forEach_callback_def Let_def timer_inv_def endGame_def clearInterval_def
      split: option.splits if_splits)

lemma mocList_forEach_timer_inv:
  "timer_inv (snd fs) \<Longrightarrow> timer_inv (snd (mocList_forEach p mocList fs))"
proof (induction mocList arbitrary: fs)
  case Nil
  then show ?case by simp
next
  case (Cons a mocList)
  obtain found s where fs: "fs = (found, s)" by (cases fs)
  with Cons.prems have "timer_inv (snd (forEach_callback p a fs))"
    by (simp add: forEach_callback_timer_inv)
  then show ?case using Cons.IH by simp
qed

lemma mouseMove_timer_inv: "timer_inv s \<Longrightarrow> timer_inv (mouseMove mocList pos s)"
proof (cases pos)
  case None
  assume "timer_inv s"
  with None show ?thesis by (simp add: mouseMove_def)
next
  case (Some p)
  assume inv: "timer_inv s"
  obtain found s1 where r: "mocList_forEach p mocList (False, s) = (found, s1)"
    by (cases "mocList_forEach p mocList (False, s)")
  from inv have "timer_inv (snd (mocList_forEach p mocList (False, s)))"
    by (rule_tac mocList_forEach_timer_inv) simp
  with r have "timer_inv s1" by simp
  then have "timer_inv (s1\<lparr>cursorInMOC := False, popup_display := ''none''\<rparr>)"
    by (simp add: timer_inv_def)
  with \<open>timer_inv s1\<close> inv show ?thesis
    by (simp add: mouseMove_def Some r)
qed

lemma startGame_timer_inv: "timer_inv s \<Longrightarrow> timer_inv (startGame s)"
  by (simp add: timer_inv_def startGame_def setInterval_def Let_def)

lemma timer_callback_timer_inv: "timer_inv s \<Longrightarrow> timer_inv (timer_callback s)"
  by (auto simp: timer_callback_def endGame_default_def endGame_def clearInterval_def Let_def
      timer_inv_def split: option.splits if_splits)

lemma step_timer_inv: "timer_inv s \<Longrightarrow> timer_inv (step mocList e s)"
  by (cases e)
     (simp_all add: step_def startGame_timer_inv mouseMove_timer_inv timer_callback_timer_inv)

lemma run_timer_inv: "timer_inv s \<Longrightarrow> timer_inv (run mocList es s)"
  by (induction es arbitrary: s) (simp_all add: step_timer_inv)

lemma initial_timer_inv: "initial s \<Longrightarrow> timer_inv s"
  by (simp add: initial_def timer_inv_def)

lemma timer_inv_at_most_one: "timer_inv s \<Longrightarrow> length (intervals s) \<le> 1"
  by (auto simp: timer_inv_def split: if_splits)

subsection \<open>A running session without early termination\<close>

lemma forEach_callback_not_started:
  "\<not> gameStarted s \<Longrightarrow> \<not> gameStarted (snd (forEach_callback p item (found, s)))"
  by (simp add: forEach_callback_def Let_def endGame_fields)

lemma mocList_forEach_not_started:
  "\<not> gameStarted (snd fs) \<Longrightarrow> \<not> gameStarted (snd (mocList_forEach p mocList fs))"
proof (induction mocList arbitrary: fs)
  case Nil
  then show ?case by simp
next
  case (Cons a mocList)
  obtain found s where fs: "fs = (found, s)" by (cases fs)
  with Cons.prems have "\<not> gameStarted (snd (forEach_callback p a fs))"
    by (simp add: forEach_callback_not_started)
  then show ?case using Cons.IH by simp
qed

lemma forEach_callback_running_frame:
  assumes "gameStarted (snd (forEach_callback p item (found, s)))"
  shows "timeLeft (snd (forEach_callback p item (found, s))) = timeLeft s
       \<and> timerInterval (snd (forEach_callback p item (found, s))) = timerInterval s
       \<and> intervals (snd (forEach_callback p item (found, s))) = intervals s
       \<and> startGameButton_disabled (snd (forEach_callback p item (found, s))) =
           startGameButton_disabled s
       \<and> score (snd (forEach_callback p item (found, s))) = score s"
  using assms
  by (auto simp: forEach_callback_def Let_def endGame_fields split: if_splits)

lemma mocList_forEach_running_frame:
  "gameStarted (snd (mocList_forEach p mocList fs)) \<Longrightarrow>
     timeLeft (snd (mocList_forEach p mocList fs)) = timeLeft (snd fs)
   \<and> timerInterval (snd (mocList_forEach p mocList fs)) = timerInterval (snd fs)
   \<and> intervals (snd (mocList_forEach p mocList fs)) = intervals (snd fs)
   \<and> startGameButton_disabled (snd (mocList_forEach p mocList fs)) =
       startGameButton_disabled (snd fs)
   \<and> score (snd (mocList_forEach p mocList fs)) = score (snd fs)"
proof (induction mocList arbitrary: fs)
  case Nil
  then show ?case by simp
next
  case (Cons a mocList)
  obtain found s where fs: "fs = (found, s)" by (cases fs)
  let ?fs' = "forEach_callback p a fs"
  from Cons.prems have run: "gameStarted (snd (mocList_forEach p mocList ?fs'))" by simp
  then have "gameStarted (snd ?fs')"
    using mocList_forEach_not_started[of ?fs' p mocList] by blast
  then have "timeLeft (snd ?fs') = timeLeft s \<and> timerInterval (snd ?fs') = timerInterval s
     \<and> intervals (snd ?fs') = intervals s
     \<and> startGameButton_disabled (snd ?fs') = startGameButton_disabled s
     \<and> score (snd ?fs') = score s"
    unfolding fs by (rule forEach_callback_running_frame)
  with Cons.IH[OF run] show ?case by (simp add: fs)
qed

lemma mouseMove_running_frame:
  assumes "gameStarted (mouseMove mocList pos s)"
  shows "timeLeft (mouseMove mocList pos s) = timeLeft s
       \<and> timerInterval (mouseMove mocList pos s) = timerInterval s
       \<and> intervals (mouseMove mocList pos s) = intervals s
       \<and> startGameButton_disabled (mouseMove mocList pos s) = startGameButton_disabled s
       \<and> score (mouseMove mocList pos s) = score s"
proof (cases pos)
  case None
  then show ?thesis by (simp add: mouseMove_def)
next
  case (Some p)
  show ?thesis
  proof (cases "gameStarted s")
    case False
    then show ?thesis by (simp add: mouseMove_not_started)
  next
    case True
    obtain found s1 where r: "mocList_forEach p mocList (False, s) = (found, s1)"
      by (cases "mocList_forEach p mocList (False, s)")
    from assms True have "gameStarted s1"
      by (simp add: mouseMove_def Some r split: if_splits)
    then have "gameStarted (snd (mocList_forEach p mocList (False, s)))" by (simp add: r)
    from mocList_forEach_running_frame[OF this]
    have "timeLeft s1 = timeLeft s \<and> timerInterval s1 = timerInterval s
       \<and> intervals s1 = intervals s
       \<and> startGameButton_disabled s1 = startGameButton_disabled s \<and> score s1 = score s"
      by (simp add: r)
    then show ?thesis by (simp add: mouseMove_def Some True r)
  qed
qed

lemma timer_callback_running:
  assumes "1 < timeLeft s"
  shows "timeLeft (timer_callback s) = timeLeft s - 1
       \<and> gameStarted (timer_callback s) = gameStarted s
       \<and> timerInterval (timer_callback s) = timerInterval s
       \<and> intervals (timer_callback s) = intervals s
       \<and> startGameButton_disabled (timer_callback s) = startGameButton_disabled s
       \<and> score (timer_callback s) = score s"
  using assms by (simp add: timer_callback_def Let_def)

lemma timer_callback_last:
  assumes "timeLeft s = 1"
  shows "timer_callback s =
           endGame_default
             (s\<lparr>timeLeft := 0, timeElement_textContent := string_of_int 0,
                timerDisplay_color := '''', countdownDisplay_textContent := string_of_int 0,
                countdownDisplay_display := ''block''\<rparr>)"
  using assms by (simp add: timer_callback_def Let_def)

lemma run_append: "run mocList (es @ es') s = run mocList es' (run mocList es s)"
  by (induction es arbitrary: s) simp_all

lemma run_countdown:
  assumes "gameStarted s" and "timerInterval s = Some k" and "intervals s = [k]"
    and "no_early_end mocList es s"
    and "int (count_list es (Tick k)) < timeLeft s"
  shows "timeLeft (run mocList es s) = timeLeft s - int (count_list es (Tick k))
       \<and> gameStarted (run mocList es s)
       \<and> timerInterval (run mocList es s) = Some k
       \<and> intervals (run mocList es s) = [k]
       \<and> startGameButton_disabled (run mocList es s) = startGameButton_disabled s
       \<and> score (run mocList es s) = score s"
  using assms
proof (induction es arbitrary: s)
  case Nil
  then show ?case by simp
next
  case (Cons e es)
  let ?s' = "step mocList e s"
  have nee: "no_early_end mocList es ?s'" using Cons.prems(4) by simp
  show ?case
  proof (cases e)
    case Click
    have same: "step mocList Click s = s"
      using Cons.prems(1) by (simp add: step_def startGame_def)
    from Cons.IH[of s] Cons.prems nee show ?thesis by (simp add: same Click)
  next
    case (MouseMove pos)
    have s': "step mocList (MouseMove pos) s = mouseMove mocList pos s"
      by (simp add: step_def)
    from Cons.prems(1,4) have g: "gameStarted (mouseMove mocList pos s)"
      by (simp add: MouseMove)
    note fr = mouseMove_running_frame[OF g]
    have "timeLeft (run mocList es ?s') = timeLeft ?s' - int (count_list es (Tick k))
       \<and> gameStarted (run mocList es ?s')
       \<and> timerInterval (run mocList es ?s') = Some k
       \<and> intervals (run mocList es ?s') = [k]
       \<and> startGameButton_disabled (run mocList es ?s') = startGameButton_disabled ?s'
       \<and> score (run mocList es ?s') = score ?s'"
      using Cons.prems g fr nee by (intro Cons.IH) (simp_all add: s' MouseMove)
    then show ?thesis using fr by (simp add: s' MouseMove)
  next
    case (Tick i)
    show ?thesis
    proof (cases "i = k")
      case True
      then have s': "step mocList (Tick k) s = timer_callback s"
        using Cons.prems(3) by (simp add: step_def)
      from Cons.prems(5) have big: "1 < timeLeft s" by (simp add: Tick True)
      note fr = timer_callback_running[OF big]
      have "timeLeft (run mocList es ?s') = timeLeft ?s' - int (count_list es (Tick k))
       \<and> gameStarted (run mocList es ?s')
       \<and> timerInterval (run mocList es ?s') = Some k
       \<and> intervals (run mocList es ?s') = [k]
       \<and> startGameButton_disabled (run mocList es ?s') = startGameButton_disabled ?s'
       \<and> score (run mocList es ?s') = score ?s'"
        using Cons.prems fr nee by (intro Cons.IH) (simp_all add: s' Tick True)
      then show ?thesis using fr by (simp add: s' Tick True)
    next
      case False
      then have same: "step mocList (Tick i) s = s"
        using Cons.prems(3) by (simp add: step_def)
      from Cons.IH[of s] Cons.prems nee False show ?thesis by (simp add: same Tick)
    qed
  qed
qed

lemma startGame_fresh:
  assumes "\<not> gameStarted s0" and "intervals s0 = []"
  shows "gameStarted (startGame s0) \<and> timerInterval (startGame s0) = Some (nextIntervalId s0)
       \<and> intervals (startGame s0) = [nextIntervalId s0] \<and> timeLeft (startGame s0) = 30
       \<and> score (startGame s0) = 0 \<and> startGameButton_disabled (startGame s0)"
  using assms by (simp add: startGame_def setInterval_def Let_def)

lemma no_early_end_ticks: "no_early_end mocList (replicate n (Tick k)) s"
  by (induction n arbitrary: s) simp_all

lemma count_list_replicate_same: "count_list (replicate n x) x = n"
  by (induction n) simp_all

subsection \<open>startGame\<close>

text \<open>
  C5, as amended. A call of \<open>startGame\<close> from a state where \<open>gameStarted\<close> is false sets
  \<open>gameStarted\<close> to true, the score to 0 and \<open>timeLeft\<close> to 30. It does not assign
  \<open>cursorInMOC\<close>: that flag keeps the value it had before the call.
\<close>

theorem startGame_resets_session:
  "\<not> gameStarted s \<Longrightarrow>
     gameStarted (startGame s) \<and> score (startGame s) = 0 \<and> timeLeft (startGame s) = 30 \<and>
     cursorInMOC (startGame s) = cursorInMOC s"
  by (simp add: startGame_def setInterval_def Let_def)

text \<open>
  An instance: two seconds into a game the target is found (score 10, 28 seconds left,
  game over); the next start resets the three values.
\<close>

theorem startGame_resets_session_witness:
  "\<not> gameStarted
       (run [lmc_region] [Click, Tick 1, Tick 1, MouseMove (Some in_lmc)] example_initial)
   \<and> score
       (run [lmc_region] [Click, Tick 1, Tick 1, MouseMove (Some in_lmc)] example_initial) = 10
   \<and> timeLeft
       (run [lmc_region] [Click, Tick 1, Tick 1, MouseMove (Some in_lmc)] example_initial) = 28
   \<and> gameStarted (startGame
       (run [lmc_region] [Click, Tick 1, Tick 1, MouseMove (Some in_lmc)] example_initial))
   \<and> score (startGame
       (run [lmc_region] [Click, Tick 1, Tick 1, MouseMove (Some in_lmc)] example_initial)) = 0
   \<and> timeLeft (startGame
       (run [lmc_region] [Click, Tick 1, Tick 1, MouseMove (Some in_lmc)] example_initial)) = 30"
proof -
  have h: "\<not> gameStarted
       (run [lmc_region] [Click, Tick 1, Tick 1, MouseMove (Some in_lmc)] example_initial)"
    and v: "score
       (run [lmc_region] [Click, Tick 1, Tick 1, MouseMove (Some in_lmc)] example_initial) = 10"
      "timeLeft
       (run [lmc_region] [Click, Tick 1, Tick 1, MouseMove (Some in_lmc)] example_initial) = 28"
    by (simp_all add: step_def startGame_def setInterval_def timer_callback_def mouseMove_def
        forEach_callback_def endGame_def clearInterval_def Let_def example_initial_def
        lmc_region_def in_lmc_def)
  from startGame_resets_session[OF h] h v show ?thesis by simp
qed

text \<open>
  C5 as stated fails for \<open>cursorInMOC\<close>: after the target has been found the game is over
  and \<open>cursorInMOC\<close> is true; the next \<open>startGame\<close> leaves it true.
\<close>

theorem startGame_cursorInMOC_counterexample:
  "\<not> gameStarted (run [lmc_region] [Click, MouseMove (Some in_lmc)] example_initial)
   \<and> cursorInMOC (startGame (run [lmc_region] [Click, MouseMove (Some in_lmc)] example_initial))"
  by (simp add: step_def startGame_def setInterval_def mouseMove_def forEach_callback_def
      endGame_def clearInterval_def Let_def example_initial_def lmc_region_def in_lmc_def)

text \<open>
  C10. A call of \<open>startGame\<close> while \<open>gameStarted\<close> is true returns at once and leaves the
  whole state unchanged (score, \<open>timeLeft\<close>, \<open>timerInterval\<close>, \<open>gameStarted\<close>, the DOM
  properties, the scheduled intervals). Hence, from the loaded page and under any sequence
  of clicks, pointer moves and timer firings, at most one countdown interval is scheduled
  at any time.
\<close>

theorem startGame_reentry_guard:
  "(gameStarted s \<longrightarrow> startGame s = s) \<and>
   (initial s0 \<longrightarrow> length (intervals (run mocList es s0)) \<le> 1)"
proof -
  have "startGame s = s" if "gameStarted s"
    using that by (simp add: startGame_def)
  moreover have "length (intervals (run mocList es s0)) \<le> 1" if "initial s0"
    using that by (intro timer_inv_at_most_one run_timer_inv initial_timer_inv)
  ultimately show ?thesis by blast
qed

text \<open>
  An instance: a second click on a running game, and a page that sees clicks, a pointer
  move and timer firings.
\<close>

theorem startGame_reentry_guard_witness:
  "gameStarted (startGame example_initial)
   \<and> startGame (startGame example_initial) = startGame example_initial
   \<and> initial example_initial
   \<and> length (intervals
        (run [lmc_region, smc_region]
           [Click, Click, Tick 1, MouseMove (Some in_lmc), Click, Click, Tick 2]
           example_initial)) \<le> 1"
proof -
  have h1: "gameStarted (startGame example_initial)"
    by (simp add: startGame_def setInterval_def Let_def example_initial_def)
  have h2: "initial example_initial"
    by (simp add: initial_def example_initial_def)
  from startGame_reentry_guard[of "startGame example_initial" example_initial
      "[lmc_region, smc_region]"
      "[Click, Click, Tick 1, MouseMove (Some in_lmc), Click, Click, Tick 2]"] h1 h2
  show ?thesis by simp
qed

subsection \<open>The countdown\<close>

text \<open>
  C4. Let \<open>startGame\<close> run from a state where the game is not running and no interval is
  scheduled, and let any sequence of events follow in which no pointer event ends the
  session. While the timer callback has run fewer than 30 times, \<open>timeLeft\<close> is 30 minus
  the number of runs, the game is still running, the interval is still scheduled and the
  start button is still disabled: \<open>endGame\<close> has not been called. The 30th run of the
  callback brings \<open>timeLeft\<close> to 0 and calls \<open>endGame\<close>: the interval is cleared, the
  game is no longer running, the start button is enabled and the status shows the time-up
  message.
\<close>

theorem countdown_thirty_ticks:
  assumes "\<not> gameStarted s0" and "intervals s0 = []"
    and "no_early_end mocList es (startGame s0)"
    and "count_list es (Tick (nextIntervalId s0)) = n"
  shows "(n < 30 \<longrightarrow>
            timeLeft (run mocList es (startGame s0)) = 30 - int n
          \<and> gameStarted (run mocList es (startGame s0))
          \<and> intervals (run mocList es (startGame s0)) = [nextIntervalId s0]
          \<and> startGameButton_disabled (run mocList es (startGame s0)))
       \<and> (n = 29 \<longrightarrow>
            timeLeft (run mocList (es @ [Tick (nextIntervalId s0)]) (startGame s0)) = 0
          \<and> \<not> gameStarted (run mocList (es @ [Tick (nextIntervalId s0)]) (startGame s0))
          \<and> intervals (run mocList (es @ [Tick (nextIntervalId s0)]) (startGame s0)) = []
          \<and> \<not> startGameButton_disabled
                (run mocList (es @ [Tick (nextIntervalId s0)]) (startGame s0))
          \<and> gameStatusDisplay_textContent
                (run mocList (es @ [Tick (nextIntervalId s0)]) (startGame s0)) =
              ''Time'' @ [CHR 0x27] @ ''s up! Final score: 0'')"
proof -
  let ?k = "nextIntervalId s0"
  let ?s1 = "startGame s0"
  let ?s = "run mocList es ?s1"
  note st = startGame_fresh[OF assms(1,2)]
  have before: "timeLeft ?s = 30 - int n \<and> gameStarted ?s \<and> timerInterval ?s = Some ?k
      \<and> intervals ?s = [?k] \<and> startGameButton_disabled ?s \<and> score ?s = 0" if "n < 30"
  proof -
    have "timeLeft ?s = timeLeft ?s1 - int (count_list es (Tick ?k))
       \<and> gameStarted ?s \<and> timerInterval ?s = Some ?k \<and> intervals ?s = [?k]
       \<and> startGameButton_disabled ?s = startGameButton_disabled ?s1
       \<and> score ?s = score ?s1"
      using st assms(3,4) that by (intro run_countdown) simp_all
    with st assms(4) show ?thesis by simp
  qed
  have last: "timeLeft (run mocList (es @ [Tick ?k]) ?s1) = 0
          \<and> \<not> gameStarted (run mocList (es @ [Tick ?k]) ?s1)
          \<and> intervals (run mocList (es @ [Tick ?k]) ?s1) = []
          \<and> \<not> startGameButton_disabled (run mocList (es @ [Tick ?k]) ?s1)
          \<and> gameStatusDisplay_textContent (run mocList (es @ [Tick ?k]) ?s1) =
              ''Time'' @ [CHR 0x27] @ ''s up! Final score: 0''" if "n = 29"
  proof -
    from that before have b: "timeLeft ?s = 1" "timerInterval ?s = Some ?k"
      "intervals ?s = [?k]" "score ?s = 0" by simp_all
    have "run mocList (es @ [Tick ?k]) ?s1 = timer_callback ?s"
      using b by (simp add: run_append step_def)
    also have "\<dots> = endGame_default
             (?s\<lparr>timeLeft := 0, timeElement_textContent := string_of_int 0,
                timerDisplay_color := '''', countdownDisplay_textContent := string_of_int 0,
                countdownDisplay_display := ''block''\<rparr>)"
      using b(1) by (rule timer_callback_last)
    finally show ?thesis
      using b by (simp add: endGame_default_def endGame_fields clearInterval_def timeUpMessage_def
          string_of_int_def string_of_nat.simps)
  qed
  from before last show ?thesis by blast
qed

text \<open>
  An instance: the pointer visits the Small Magellanic Cloud, then the interval fires 29
  times; the game is still running with one second left, and the next firing ends it.
\<close>

theorem countdown_thirty_ticks_witness:
  "\<not> gameStarted example_initial
   \<and> intervals example_initial = []
   \<and> nextIntervalId example_initial = 1
   \<and> no_early_end [lmc_region, smc_region]
        (MouseMove (Some in_smc) # replicate 29 (Tick 1)) (startGame example_initial)
   \<and> count_list (MouseMove (Some in_smc) # replicate 29 (Tick 1)) (Tick 1) = 29
   \<and> timeLeft (run [lmc_region, smc_region]
        (MouseMove (Some in_smc) # replicate 29 (Tick 1)) (startGame example_initial)) = 1
   \<and> gameStarted (run [lmc_region, smc_region]
        (MouseMove (Some in_smc) # replicate 29 (Tick 1)) (startGame example_initial))
   \<and> timeLeft (run [lmc_region, smc_region]
        ((MouseMove (Some in_smc) # replicate 29 (Tick 1)) @ [Tick 1])
        (startGame example_initial)) = 0
   \<and> \<not> gameStarted (run [lmc_region, smc_region]
        ((MouseMove (Some in_smc) # replicate 29 (Tick 1)) @ [Tick 1])
        (startGame example_initial))
   \<and> intervals (run [lmc_region, smc_region]
        ((MouseMove (Some in_smc) # replicate 29 (Tick 1)) @ [Tick 1])
        (startGame example_initial)) = []"
proof -
  have h1: "\<not> gameStarted example_initial" and h2: "intervals example_initial = []"
    and k: "nextIntervalId example_initial = 1"
    by (simp_all add: example_initial_def)
  have "gameStarted (mouseMove [lmc_region, smc_region] (Some in_smc) (startGame example_initial))
      = gameStarted (startGame example_initial)"
    by (simp add: startGame_def setInterval_def mouseMove_def forEach_callback_def
        Let_def example_initial_def lmc_region_def smc_region_def in_smc_def)
  then have h3: "no_early_end [lmc_region, smc_region]
        (MouseMove (Some in_smc) # replicate 29 (Tick 1)) (startGame example_initial)"
    by (simp add: no_early_end_ticks)
  have h4: "count_list (MouseMove (Some in_smc) # replicate 29 (Tick 1))
        (Tick (nextIntervalId example_initial)) = 29"
    by (simp add: k count_list_replicate_same)
  from countdown_thirty_ticks[OF h1 h2 h3 h4] h1 h2 h3 h4 k
  show ?thesis by simp
qed

end
